theory Spec2Isabelle
  imports Complex_Main
begin

section \<open>Frame partitioning utilities of \<^verbatim>\<open>modin/core/storage_formats/pandas/utils.py\<close>\<close>

text \<open>
  The module holds five functions: \<^verbatim>\<open>get_default_chunksize\<close>,
  \<^verbatim>\<open>compute_chunksize\<close>, \<^verbatim>\<open>split_result_of_axis_func_pandas\<close>,
  \<^verbatim>\<open>length_fn_pandas\<close> and \<^verbatim>\<open>width_fn_pandas\<close>. Python integers are
  unbounded and modelled as \<^typ>\<open>int\<close>; \<^verbatim>\<open>//\<close> and \<^verbatim>\<open>%\<close> round towards minus
  infinity, as \<open>div\<close> and \<open>mod\<close> on \<^typ>\<open>int\<close> do. Every exception the code can raise is
  a value of \<open>py_error\<close>.
\<close>

subsection \<open>Data model\<close>

datatype py_error =
  ZeroDivisionError | AttributeError | UnboundLocalError | TypeError
  | IndexingError | AssertionError

text \<open>
  A pandas object as far as this module looks at it. A \<open>DataFrame\<close> has its column
  labels and its rows in order, each row with its index label and its cells; a
  \<open>Series\<close> has its items in order, each with its index label. The number of rows is the
  length of the index, so \<^verbatim>\<open>len(df)\<close> and \<^verbatim>\<open>len(df.index)\<close> are the same number.
\<close>

datatype ('l, 'a) pandas =
  DataFrame "'l list" "('l \<times> 'a list) list"
  | Series "('l \<times> 'a) list"

text \<open>Every row of a data frame has one cell for each column.\<close>

fun wf_frame :: "('l, 'a) pandas \<Rightarrow> bool" where
  "wf_frame (DataFrame cols rws) = list_all (\<lambda>(l, cells). length cells = length cols) rws"
| "wf_frame (Series xs) = True"

fun isinstance_DataFrame :: "('l, 'a) pandas \<Rightarrow> bool" where
  "isinstance_DataFrame (DataFrame cols rws) = True"
| "isinstance_DataFrame (Series xs) = False"

fun isinstance_Series :: "('l, 'a) pandas \<Rightarrow> bool" where
  "isinstance_Series (DataFrame cols rws) = False"
| "isinstance_Series (Series xs) = True"

text \<open>\<^verbatim>\<open>len(df.index)\<close>, defined for both kinds of object.\<close>

fun len_index :: "('l, 'a) pandas \<Rightarrow> int" where
  "len_index (DataFrame cols rws) = int (length rws)"
| "len_index (Series xs) = int (length xs)"

text \<open>\<^verbatim>\<open>len(df.columns)\<close>: a Series has no attribute \<^verbatim>\<open>columns\<close>.\<close>

fun len_columns :: "('l, 'a) pandas \<Rightarrow> py_error + int" where
  "len_columns (DataFrame cols rws) = Inr (int (length cols))"
| "len_columns (Series xs) = Inl AttributeError"

text \<open>
  Python's slice \<^verbatim>\<open>xs[a:b]\<close> with integer bounds: a negative bound counts from the
  end, both bounds are clamped to the sequence, and an empty range gives the empty
  sequence. Positional slicing with \<^verbatim>\<open>iloc\<close> follows the same rule and never raises.
\<close>

definition slice_bound :: "int \<Rightarrow> int \<Rightarrow> nat" where
  "slice_bound n a = nat (if a < 0 then max 0 (a + n) else min a n)"

definition py_slice :: "int \<Rightarrow> int \<Rightarrow> 'x list \<Rightarrow> 'x list" where
  "py_slice a b xs =
     (let n = int (length xs); lo = slice_bound n a; hi = slice_bound n b
      in take (hi - lo) (drop lo xs))"

text \<open>\<^verbatim>\<open>result.iloc[a:b]\<close>: rows of a data frame, items of a series.\<close>

fun iloc_rows :: "int \<Rightarrow> int \<Rightarrow> ('l, 'a) pandas \<Rightarrow> ('l, 'a) pandas" where
  "iloc_rows a b (DataFrame cols rws) = DataFrame cols (py_slice a b rws)"
| "iloc_rows a b (Series xs) = Series (py_slice a b xs)"

text \<open>
  \<^verbatim>\<open>result.iloc[:, a:b]\<close>: the columns of a data frame, with the cells of every row;
  a series has one axis only and pandas raises for the second indexer.
\<close>

fun iloc_cols :: "int \<Rightarrow> int \<Rightarrow> ('l, 'a) pandas \<Rightarrow> py_error + ('l, 'a) pandas" where
  "iloc_cols a b (DataFrame cols rws) =
     Inr (DataFrame (py_slice a b cols) (map (\<lambda>(l, cells). (l, py_slice a b cells)) rws))"
| "iloc_cols a b (Series xs) = Inl IndexingError"

text \<open>\<^verbatim>\<open>range(n)\<close>: empty when \<open>n \<le> 0\<close>.\<close>

definition py_range :: "int \<Rightarrow> int list" where
  "py_range n = [0..n - 1]"

text \<open>
  A list comprehension whose element expression may raise: the elements are evaluated
  in order and the first exception leaves the comprehension.
\<close>

fun comprehension :: "(py_error + 'b) list \<Rightarrow> py_error + 'b list" where
  "comprehension [] = Inr []"
| "comprehension (Inl e # rest) = Inl e"
| "comprehension (Inr x # rest) =
     (case comprehension rest of Inl e \<Rightarrow> Inl e | Inr xs \<Rightarrow> Inr (x # xs))"

text \<open>
  \<^verbatim>\<open>np.cumsum\<close> on a list of integers. numpy makes an array of the list first, of
  64-bit integers when every entry fits, and adds in that type, where a sum out of range
  wraps around. \<open>np_cumsum\<close> gives the running sums exactly, which is what numpy
  returns on every list whose entries and running sums lie in the 64-bit range
  (\<open>int64_sums\<close> below); the statements on the slices of the length-list path are made
  for such lists. Outside that range numpy wraps, or changes the type of the array when
  an entry does not fit, and the slices are no longer taken at the exact sums.
\<close>

fun cumsum_from :: "int \<Rightarrow> int list \<Rightarrow> int list" where
  "cumsum_from acc [] = []"
| "cumsum_from acc (x # xs) = (acc + x) # cumsum_from (acc + x) xs"

definition np_cumsum :: "int list \<Rightarrow> int list" where
  "np_cumsum xs = cumsum_from 0 xs"

text \<open>
  The range of a 64-bit integer, and the lists that \<^verbatim>\<open>length_list.insert(0, 0)\<close> and
  \<^verbatim>\<open>np.cumsum\<close> take through it without loss: every entry and every running sum of
  \<open>[0] + list\<close> is in the range.
\<close>

definition in_int64 :: "int \<Rightarrow> bool" where
  "in_int64 x \<longleftrightarrow> - (2 ^ 63) \<le> x \<and> x < 2 ^ 63"

definition int64_sums :: "int list \<Rightarrow> bool" where
  "int64_sums ls \<longleftrightarrow> list_all in_int64 ls \<and> list_all in_int64 (np_cumsum (0 # ls))"

text \<open>
  The addition of numpy's 64-bit integers, which wraps around, and the running sums taken
  with it.
\<close>

definition wrap_int64 :: "int \<Rightarrow> int" where
  "wrap_int64 x = (x + 2 ^ 63) mod 2 ^ 64 - 2 ^ 63"

fun cumsum_int64 :: "int \<Rightarrow> int list \<Rightarrow> int list" where
  "cumsum_int64 acc [] = []"
| "cumsum_int64 acc (x # xs) = wrap_int64 (acc + x) # cumsum_int64 (wrap_int64 (acc + x)) xs"

subsection \<open>Chunk sizes\<close>

text \<open>
  \<^verbatim>\<open>get_default_chunksize(length, num_splits)\<close>. The condition of the conditional
  expression is evaluated first, and \<^verbatim>\<open>length % 0\<close> raises.
\<close>

definition get_default_chunksize :: "int \<Rightarrow> int \<Rightarrow> py_error + int" where
  "get_default_chunksize len num_splits =
     (if num_splits = 0 then Inl ZeroDivisionError
      else Inr (if len mod num_splits = 0 then len div num_splits
                else len div num_splits + 1))"

text \<open>
  \<^verbatim>\<open>compute_chunksize(df, num_splits, default_block_size=None, axis=None)\<close> returns an
  integer when an axis is given and a pair otherwise. The configuration value
  \<^verbatim>\<open>MinPartitionSize.get()\<close> lives outside this module and is the first argument here.
  An axis other than 0, 1 or \<^verbatim>\<open>None\<close> skips the row branch and reaches the final
  \<^verbatim>\<open>return row_chunksize, col_chunksize\<close> with \<^verbatim>\<open>row_chunksize\<close> unbound.
\<close>

datatype chunksize = Single int | Both int int

text \<open>Lines 80 to 87: the column branch, entered with the row chunk size if it was bound.\<close>

definition compute_chunksize_cols ::
  "('l, 'a) pandas \<Rightarrow> int \<Rightarrow> int \<Rightarrow> int option \<Rightarrow> int option \<Rightarrow> py_error + chunksize" where
  "compute_chunksize_cols df num_splits default_block_size axis row_chunksize =
     (case len_columns df of
        Inl e \<Rightarrow> Inl e
      | Inr n \<Rightarrow>
          (case get_default_chunksize n num_splits of
             Inl e \<Rightarrow> Inl e
           | Inr c \<Rightarrow>
               (let col_chunksize = max 1 (max c default_block_size)
                in if axis = Some 1 then Inr (Single col_chunksize)
                   else (case row_chunksize of
                           None \<Rightarrow> Inl UnboundLocalError
                         | Some r \<Rightarrow> Inr (Both r col_chunksize)))))"

definition compute_chunksize ::
  "int \<Rightarrow> ('l, 'a) pandas \<Rightarrow> int \<Rightarrow> int option \<Rightarrow> int option \<Rightarrow> py_error + chunksize" where
  "compute_chunksize min_partition_size df num_splits default_block_size axis =
     (let block_size = (case default_block_size of
                          None \<Rightarrow> min_partition_size
                        | Some b \<Rightarrow> b)
      in if axis = Some 0 \<or> axis = None then
           (case get_default_chunksize (len_index df) num_splits of
              Inl e \<Rightarrow> Inl e
            | Inr c \<Rightarrow>
                (let row_chunksize = max 1 (max c block_size)
                 in if axis = Some 0 then Inr (Single row_chunksize)
                    else compute_chunksize_cols df num_splits block_size axis
                           (Some row_chunksize)))
         else compute_chunksize_cols df num_splits block_size axis None)"

subsection \<open>Splitting\<close>

text \<open>
  The objects a call of \<^verbatim>\<open>split_result_of_axis_func_pandas\<close> receives by reference:
  the table \<^verbatim>\<open>result\<close> and the list \<^verbatim>\<open>length_list\<close> (\<open>None\<close> when the argument is
  left out). The function returns its outcome together with these objects as the call
  leaves them, so that a statement executed on the caller's list shows.
\<close>

record ('l, 'a) objects =
  result :: "('l, 'a) pandas"
  length_list :: "int list option"

text \<open>
  \<^verbatim>\<open>split_result_of_axis_func_pandas(axis, num_splits, result, length_list=None)\<close>,
  with \<^verbatim>\<open>axis\<close> an integer as its documentation has it. With an integer axis
  \<^verbatim>\<open>compute_chunksize\<close> returns no pair; a pair would not be a slice bound. The
  source's local \<^verbatim>\<open>sums\<close> is \<open>cum_sums\<close> here.
\<close>

definition split_result_of_axis_func_pandas ::
  "int \<Rightarrow> int \<Rightarrow> int \<Rightarrow> ('l, 'a) objects \<Rightarrow> (py_error + ('l, 'a) pandas list) \<times> ('l, 'a) objects" where
  "split_result_of_axis_func_pandas min_partition_size axis num_splits objs =
     (case length_list objs of
        Some ll \<Rightarrow>
          (let inserted = 0 # ll;
               objs' = objs\<lparr>length_list := Some inserted\<rparr>;
               cum_sums = np_cumsum inserted
           in if axis = 0 \<or> isinstance_Series (result objs) then
                (Inr (map (\<lambda>i. iloc_rows (cum_sums ! i) (cum_sums ! (i + 1)) (result objs))
                        [0..<length cum_sums - 1]), objs')
              else
                (comprehension
                   (map (\<lambda>i. iloc_cols (cum_sums ! i) (cum_sums ! (i + 1)) (result objs))
                      [0..<length cum_sums - 1]), objs'))
      | None \<Rightarrow>
          if num_splits = 1 then (Inr [result objs], objs)
          else
            (case compute_chunksize min_partition_size (result objs) num_splits None (Some axis) of
               Inl e \<Rightarrow> (Inl e, objs)
             | Inr (Both r c) \<Rightarrow> (Inl TypeError, objs)
             | Inr (Single chunksize) \<Rightarrow>
                 if axis = 0 \<or> isinstance_Series (result objs) then
                   (Inr (map (\<lambda>i. iloc_rows (chunksize * i) (chunksize * (i + 1)) (result objs))
                           (py_range num_splits)), objs)
                 else
                   (comprehension
                      (map (\<lambda>i. iloc_cols (chunksize * i) (chunksize * (i + 1)) (result objs))
                         (py_range num_splits)), objs)))"

subsection \<open>Dimension probes\<close>

text \<open>\<^verbatim>\<open>length_fn_pandas(df)\<close> and \<^verbatim>\<open>width_fn_pandas(df)\<close>, each behind its assertion.\<close>

definition length_fn_pandas :: "('l, 'a) pandas \<Rightarrow> py_error + int" where
  "length_fn_pandas df =
     (if \<not> isinstance_DataFrame df then Inl AssertionError
      else Inr (if len_index df > 0 then len_index df else 0))"

definition width_fn_pandas :: "('l, 'a) pandas \<Rightarrow> py_error + int" where
  "width_fn_pandas df =
     (if \<not> isinstance_DataFrame df then Inl AssertionError
      else (case len_columns df of
              Inl e \<Rightarrow> Inl e
            | Inr n \<Rightarrow> Inr (if n > 0 then n else 0)))"

subsection \<open>Notions of the specification\<close>

text \<open>
  The specification states the chunk size with a ceiling of a quotient and an effective
  minimum block size. Both are written here as the specification words them, and the
  functions above are compared with them below.
\<close>

definition effective_minimum :: "int \<Rightarrow> int option \<Rightarrow> int" where
  "effective_minimum min_partition_size override =
     (case override of None \<Rightarrow> min_partition_size | Some b \<Rightarrow> b)"

definition balanced_chunksize :: "int \<Rightarrow> int \<Rightarrow> int \<Rightarrow> int" where
  "balanced_chunksize len N floor_size = max 1 (max \<lceil>real_of_int len / real_of_int N\<rceil> floor_size)"

text \<open>
  The prefix sums over \<open>[0] + list\<close>: entry \<open>i\<close> is the sum of the first \<open>i\<close> entries
  of the list.
\<close>

definition prefix_sum :: "int list \<Rightarrow> nat \<Rightarrow> int" where
  "prefix_sum ls i = sum_list (take i ls)"

text \<open>
  Concatenation of partitions along an axis, as \<^verbatim>\<open>pandas.concat(parts, axis=axis)\<close>
  does it for parts that agree on the other axis: along the rows the parts have the same
  columns and their rows follow one another; along the columns the parts have the same
  index and the cells of each row follow one another. Parts that disagree on the other
  axis are aligned by label in pandas, which is not described here (\<open>None\<close>). An empty
  sequence of parts has no concatenation: pandas raises \<^verbatim>\<open>ValueError\<close>.
\<close>

fun concat_pair :: "int \<Rightarrow> ('l, 'a) pandas \<Rightarrow> ('l, 'a) pandas \<Rightarrow> ('l, 'a) pandas option" where
  "concat_pair axis (DataFrame c r) (DataFrame c' r') =
     (if axis = 0 then (if c = c' then Some (DataFrame c (r @ r')) else None)
      else if axis = 1 then
        (if map fst r = map fst r'
         then Some (DataFrame (c @ c') (map2 (\<lambda>(l, x) (l', y). (l, x @ y)) r r'))
         else None)
      else None)"
| "concat_pair axis (Series xs) (Series ys) = (if axis = 0 then Some (Series (xs @ ys)) else None)"
| "concat_pair axis (DataFrame c r) (Series ys) = None"
| "concat_pair axis (Series xs) (DataFrame c' r') = None"

fun pandas_concat :: "int \<Rightarrow> ('l, 'a) pandas list \<Rightarrow> ('l, 'a) pandas option" where
  "pandas_concat axis [] = None"
| "pandas_concat axis [p] = Some p"
| "pandas_concat axis (p # q # ps) =
     (case pandas_concat axis (q # ps) of
        None \<Rightarrow> None
      | Some t \<Rightarrow> concat_pair axis p t)"

section \<open>Ceiling division\<close>

lemma get_default_chunksize_neg_div:
  "N \<noteq> 0 \<Longrightarrow> get_default_chunksize L N = Inr (- ((- L) div N))"
  by (simp add: get_default_chunksize_def zdiv_zminus1_eq_if)

lemma neg_div_cover:
  fixes L N :: int
  assumes "0 < N"
  shows "L \<le> (- ((- L) div N)) * N"
proof -
  have "(- L) div N * N \<le> - L"
    using pos_mod_sign [OF assms, of "- L"] div_mult_mod_eq [of "- L" N] by linarith
  then show ?thesis by (simp add: algebra_simps)
qed

lemma neg_div_least:
  fixes L N C :: int
  assumes "0 < N" and "L \<le> C * N"
  shows "- ((- L) div N) \<le> C"
proof -
  have "- C * N \<le> - L" using assms(2) by simp
  then have "(- C * N) div N \<le> (- L) div N"
    using assms(1) by (rule zdiv_mono1)
  moreover have "(- C * N) div N = - C"
    using assms(1) by (simp add: zdiv_zminus1_eq_if)
  ultimately show ?thesis by simp
qed

lemma neg_div_tight:
  fixes L N :: int
  assumes "0 < N"
  shows "(- ((- L) div N) - 1) * N < L"
proof (rule ccontr)
  assume "\<not> (- ((- L) div N) - 1) * N < L"
  then have "L \<le> (- ((- L) div N) - 1) * N" by simp
  with assms have "- ((- L) div N) \<le> - ((- L) div N) - 1"
    by (rule neg_div_least)
  then show False by simp
qed

lemma get_default_chunksize_ceiling:
  "0 < N \<Longrightarrow> get_default_chunksize L N = Inr \<lceil>real_of_int L / real_of_int N\<rceil>"
  by (simp add: get_default_chunksize_neg_div ceiling_divide_eq_div)

text \<open>
  Claim C6. For a length \<open>L \<ge> 0\<close> and a number of splits \<open>N \<ge> 1\<close>,
  \<^verbatim>\<open>get_default_chunksize(L, N)\<close> returns the ceiling of \<open>L / N\<close>, and this is the
  least integer \<open>C\<close> for which \<open>N\<close> chunks of size \<open>C\<close> cover \<open>L\<close>.
\<close>

theorem get_default_chunksize_is_ceiling:
  assumes "0 \<le> L" and "1 \<le> N"
  shows "get_default_chunksize L N = Inr \<lceil>real_of_int L / real_of_int N\<rceil>
         \<and> L \<le> \<lceil>real_of_int L / real_of_int N\<rceil> * N
         \<and> (\<forall>C. L \<le> C * N \<longrightarrow> \<lceil>real_of_int L / real_of_int N\<rceil> \<le> C)"
proof -
  have pos: "0 < N" using assms(2) by simp
  have c: "\<lceil>real_of_int L / real_of_int N\<rceil> = - ((- L) div N)"
    by (rule ceiling_divide_eq_div)
  have "get_default_chunksize L N = Inr (- ((- L) div N))"
    using pos by (simp add: get_default_chunksize_neg_div)
  moreover have "L \<le> (- ((- L) div N)) * N"
    using pos by (rule neg_div_cover)
  moreover have "\<forall>C. L \<le> C * N \<longrightarrow> - ((- L) div N) \<le> C"
    using pos by (simp add: neg_div_least)
  ultimately show ?thesis unfolding c by simp
qed

theorem get_default_chunksize_is_ceiling_witness:
  "(0::int) \<le> 10 \<and> (1::int) \<le> 3 \<and> get_default_chunksize 10 3 = Inr 4"
  using get_default_chunksize_is_ceiling [of 10 3] by simp

text \<open>
  Claim C5 says \<open>C * N \<ge> L\<close> and \<open>C * (N - 1) < L\<close> for \<open>C\<close> the returned chunk
  size. The second inequality does not hold: for \<open>L = 4\<close> and \<open>N = 3\<close> the chunk size
  is 2 and \<open>2 * (3 - 1) = 4\<close>.
\<close>

theorem ceiling_law_counterexample:
  "(0::int) \<le> 4 \<and> (1::int) \<le> 3 \<and> get_default_chunksize 4 3 = Inr 2
   \<and> (4::int) \<le> 2 * 3 \<and> \<not> ((2::int) * (3 - 1) < 4)"
  by (simp add: get_default_chunksize_def)

text \<open>
  Claim C5, amended. For \<open>L \<ge> 0\<close> and \<open>N \<ge> 1\<close> the returned chunk size \<open>C\<close>
  satisfies \<open>C * N \<ge> L\<close> and \<open>(C - 1) * N < L\<close>: \<open>N\<close> chunks cover the length and
  chunks one smaller do not.
\<close>

theorem get_default_chunksize_ceiling_law:
  assumes "0 \<le> L" and "1 \<le> N"
  shows "\<exists>C. get_default_chunksize L N = Inr C \<and> L \<le> C * N \<and> (C - 1) * N < L"
proof -
  have pos: "0 < N" using assms(2) by simp
  have "get_default_chunksize L N = Inr (- ((- L) div N))"
    using pos by (simp add: get_default_chunksize_neg_div)
  moreover have "L \<le> (- ((- L) div N)) * N"
    using pos by (rule neg_div_cover)
  moreover have "(- ((- L) div N) - 1) * N < L"
    using pos by (rule neg_div_tight)
  ultimately show ?thesis by blast
qed

theorem get_default_chunksize_ceiling_law_witness:
  "(0::int) \<le> 4 \<and> (1::int) \<le> 3
   \<and> (\<exists>C. get_default_chunksize 4 3 = Inr C \<and> 4 \<le> C * 3 \<and> (C - 1) * 3 < 4)"
  using get_default_chunksize_ceiling_law [of 4 3] by simp

section \<open>The balanced chunk size\<close>

text \<open>
  Claim C4. For every data frame, every \<open>N \<ge> 1\<close> and every requested axis (rows,
  columns or both), \<^verbatim>\<open>compute_chunksize\<close> returns for each axis the maximum of 1, the
  ceiling of the axis length over \<open>N\<close>, and the effective minimum block size: the
  caller's override if there is one, the configured minimum partition size otherwise.
  So every returned chunk size is at least 1 and at least the effective minimum.
\<close>

theorem compute_chunksize_balanced:
  assumes "1 \<le> N"
  shows "compute_chunksize mps (DataFrame cols rws) N override (Some 0)
           = Inr (Single (balanced_chunksize (int (length rws)) N (effective_minimum mps override)))
       \<and> compute_chunksize mps (DataFrame cols rws) N override (Some 1)
           = Inr (Single (balanced_chunksize (int (length cols)) N (effective_minimum mps override)))
       \<and> compute_chunksize mps (DataFrame cols rws) N override None
           = Inr (Both (balanced_chunksize (int (length rws)) N (effective_minimum mps override))
                       (balanced_chunksize (int (length cols)) N (effective_minimum mps override)))
       \<and> 1 \<le> balanced_chunksize len N (effective_minimum mps override)
       \<and> effective_minimum mps override \<le> balanced_chunksize len N (effective_minimum mps override)"
proof -
  have pos: "0 < N" using assms by simp
  have eqs: "compute_chunksize mps (DataFrame cols rws) N override (Some 0)
           = Inr (Single (balanced_chunksize (int (length rws)) N (effective_minimum mps override)))
       \<and> compute_chunksize mps (DataFrame cols rws) N override (Some 1)
           = Inr (Single (balanced_chunksize (int (length cols)) N (effective_minimum mps override)))
       \<and> compute_chunksize mps (DataFrame cols rws) N override None
           = Inr (Both (balanced_chunksize (int (length rws)) N (effective_minimum mps override))
                       (balanced_chunksize (int (length cols)) N (effective_minimum mps override)))"
    using pos
    by (simp add: compute_chunksize_def compute_chunksize_cols_def balanced_chunksize_def
        effective_minimum_def get_default_chunksize_ceiling split: option.split)
  have bounds: "1 \<le> balanced_chunksize len N (effective_minimum mps override)
       \<and> effective_minimum mps override \<le> balanced_chunksize len N (effective_minimum mps override)"
    by (simp add: balanced_chunksize_def le_max_iff_disj)
  from eqs bounds show ?thesis by simp
qed

theorem compute_chunksize_balanced_witness:
  "(1::int) \<le> 5
   \<and> compute_chunksize 32 (DataFrame [0::nat] [(0::nat, [7::nat]), (1, [8])]) 5 (Some 20) (Some 0)
       = Inr (Single 20)
   \<and> compute_chunksize 1 (DataFrame [0::nat] [(0::nat, [7::nat]), (1, [8]), (2, [9])]) 2 None None
       = Inr (Both 2 1)"
  using compute_chunksize_balanced [of 5 32 "[0::nat]" "[(0::nat, [7::nat]), (1, [8])]" "Some 20"]
    compute_chunksize_balanced [of 2 1 "[0::nat]" "[(0::nat, [7::nat]), (1, [8]), (2, [9])]" None]
  by (simp add: balanced_chunksize_def effective_minimum_def)

section \<open>Splitting into one partition\<close>

text \<open>
  Claim C8. With \<^verbatim>\<open>num_splits = 1\<close> and no length list,
  \<^verbatim>\<open>split_result_of_axis_func_pandas\<close> returns, for every table and every axis, the
  one-element list holding the table itself.
\<close>

theorem split_single:
  "split_result_of_axis_func_pandas mps axis 1 \<lparr>result = T, length_list = None\<rparr>
     = (Inr [T], \<lparr>result = T, length_list = None\<rparr>)"
  by (simp add: split_result_of_axis_func_pandas_def)

section \<open>Dimension probes\<close>

text \<open>
  Claim C9. \<^verbatim>\<open>length_fn_pandas\<close> and \<^verbatim>\<open>width_fn_pandas\<close> fail with an assertion
  error exactly when the input is not a data frame, as a series is not; on a data frame
  they return the number of rows and the number of columns, a non-negative integer that
  is 0 when the data frame has no rows, respectively no columns.
\<close>

theorem dimension_probes:
  "(length_fn_pandas df = Inl AssertionError \<longleftrightarrow> \<not> isinstance_DataFrame df)
   \<and> (width_fn_pandas df = Inl AssertionError \<longleftrightarrow> \<not> isinstance_DataFrame df)
   \<and> length_fn_pandas (Series xs) = Inl AssertionError
   \<and> width_fn_pandas (Series xs) = Inl AssertionError
   \<and> length_fn_pandas (DataFrame cols rws) = Inr (int (length rws))
   \<and> width_fn_pandas (DataFrame cols rws) = Inr (int (length cols))
   \<and> length_fn_pandas (DataFrame cols []) = Inr 0
   \<and> width_fn_pandas (DataFrame [] rws) = Inr 0"
  by (cases df) (simp_all add: length_fn_pandas_def width_fn_pandas_def)

section \<open>Slices and running sums\<close>

lemma slice_bound_nonneg: "0 \<le> a \<Longrightarrow> slice_bound (int n) a = min (nat a) n"
  unfolding slice_bound_def by (auto simp: min_def)

lemma py_slice_nonneg:
  assumes "0 \<le> a" and "0 \<le> b"
  shows "py_slice a b xs = take (nat b - nat a) (drop (nat a) xs)"
proof (cases "nat a < length xs")
  case True
  then show ?thesis
    using assms by (simp add: py_slice_def slice_bound_nonneg min_def Let_def)
next
  case False
  then show ?thesis
    using assms by (simp add: py_slice_def slice_bound_nonneg min_def Let_def)
qed

lemma py_slice_append:
  assumes "0 \<le> a" and "a \<le> b" and "b \<le> c"
  shows "py_slice a b xs @ py_slice b c xs = py_slice a c xs"
proof -
  have b0: "0 \<le> b" and c0: "0 \<le> c" using assms by simp_all
  have ab: "nat a \<le> nat b" and bc: "nat b \<le> nat c" using assms by simp_all
  have "drop (nat b) xs = drop (nat b - nat a) (drop (nat a) xs)"
    using ab by simp
  moreover have "nat c - nat a = (nat b - nat a) + (nat c - nat b)"
    using ab bc by simp
  ultimately have "take (nat c - nat a) (drop (nat a) xs)
      = take (nat b - nat a) (drop (nat a) xs) @ take (nat c - nat b) (drop (nat b) xs)"
    by (simp add: take_add)
  then show ?thesis
    using assms b0 c0 by (simp add: py_slice_nonneg)
qed

lemma py_slice_whole: "int (length xs) \<le> b \<Longrightarrow> py_slice 0 b xs = xs"
  by (simp add: py_slice_nonneg)

lemma py_slice_0_0: "py_slice 0 0 xs = []"
  by (simp add: py_slice_def slice_bound_def)

lemma length_cumsum_from: "length (cumsum_from acc xs) = length xs"
  by (induction xs arbitrary: acc) simp_all

lemma nth_cumsum_from:
  "i < length xs \<Longrightarrow> cumsum_from acc xs ! i = acc + sum_list (take (Suc i) xs)"
proof (induction xs arbitrary: acc i)
  case Nil
  then show ?case by simp
next
  case (Cons x xs)
  show ?case
  proof (cases i)
    case 0
    then show ?thesis by simp
  next
    case (Suc j)
    with Cons.prems have "j < length xs" by simp
    then have "cumsum_from (acc + x) xs ! j = acc + x + sum_list (take (Suc j) xs)"
      by (rule Cons.IH)
    with Suc show ?thesis by simp
  qed
qed

lemma length_np_cumsum: "length (np_cumsum (0 # ls)) = Suc (length ls)"
  by (simp add: np_cumsum_def length_cumsum_from)

lemma nth_np_cumsum:
  "i \<le> length ls \<Longrightarrow> np_cumsum (0 # ls) ! i = prefix_sum ls i"
  by (cases i) (simp_all add: np_cumsum_def prefix_sum_def nth_cumsum_from)

lemma prefix_sum_0: "prefix_sum ls 0 = 0"
  by (simp add: prefix_sum_def)

lemma prefix_sum_Cons: "prefix_sum (x # ls) (Suc i) = x + prefix_sum ls i"
  by (simp add: prefix_sum_def)

lemma prefix_sum_mono:
  assumes "\<forall>l\<in>set ls. 0 \<le> l"
  shows "mono (prefix_sum ls)"
proof (rule monoI)
  fix i j :: nat
  assume "i \<le> j"
  then have "take j ls = take i ls @ take (j - i) (drop i ls)"
    by (metis le_add_diff_inverse take_add)
  moreover have "0 \<le> sum_list (take (j - i) (drop i ls))"
  proof (rule sum_list_nonneg)
    fix x
    assume "x \<in> set (take (j - i) (drop i ls))"
    then have "x \<in> set ls"
      by (meson in_set_dropD in_set_takeD)
    with assms show "0 \<le> x" by simp
  qed
  ultimately show "prefix_sum ls i \<le> prefix_sum ls j"
    by (simp add: prefix_sum_def)
qed

lemma prefix_sum_all: "prefix_sum ls (length ls) = sum_list ls"
  by (simp add: prefix_sum_def)

lemma py_range_upt: "py_range n = map int [0..<nat n]"
proof (rule nth_equalityI)
  show "length (py_range n) = length (map int [0..<nat n])"
    by (simp add: py_range_def)
next
  fix i
  assume "i < length (py_range n)"
  then have "i < nat n" by (simp add: py_range_def)
  then show "py_range n ! i = map int [0..<nat n] ! i"
    by (simp add: py_range_def)
qed

lemma comprehension_Inr: "comprehension (map (\<lambda>i. Inr (f i)) xs) = Inr (map f xs)"
  by (induction xs) simp_all

text \<open>
  On a list in the 64-bit range the wrapping sums are the exact ones, and a list of
  non-negative entries whose sum is below \<open>2 ^ 63\<close> is in the range.
\<close>

lemma wrap_int64_id: "in_int64 x \<Longrightarrow> wrap_int64 x = x"
  by (simp add: in_int64_def wrap_int64_def)

lemma cumsum_int64_exact:
  "list_all in_int64 (cumsum_from acc xs) \<Longrightarrow> cumsum_int64 acc xs = cumsum_from acc xs"
  by (induction xs arbitrary: acc) (simp_all add: wrap_int64_id)

lemma int64_sums_agree:
  "int64_sums ls \<Longrightarrow> cumsum_int64 0 (0 # ls) = np_cumsum (0 # ls)"
  unfolding int64_sums_def np_cumsum_def by (simp add: cumsum_int64_exact wrap_int64_def)

lemma entry_le_sum_list:
  fixes ls :: "int list"
  assumes "\<forall>l\<in>set ls. 0 \<le> l" and "x \<in> set ls"
  shows "x \<le> sum_list ls"
  using assms
proof (induction ls)
  case Nil
  then show ?case by simp
next
  case (Cons a ls)
  have rest: "0 \<le> sum_list ls"
    using Cons.prems(1) by (intro sum_list_nonneg) simp
  show ?case
  proof (cases "x = a")
    case True
    with rest show ?thesis by simp
  next
    case False
    with Cons.prems have "x \<in> set ls" and "\<forall>l\<in>set ls. 0 \<le> l" and "0 \<le> a" by simp_all
    then have "x \<le> sum_list ls" using Cons.IH by simp
    with \<open>0 \<le> a\<close> show ?thesis by simp
  qed
qed

lemma nonneg_sums_in_int64:
  assumes nonneg: "\<forall>l\<in>set ls. 0 \<le> l" and bound: "sum_list ls < 2 ^ 63"
  shows "int64_sums ls"
proof -
  have entries: "list_all in_int64 ls"
    unfolding list_all_iff
  proof
    fix x assume x: "x \<in> set ls"
    then have "0 \<le> x" using nonneg by simp
    moreover have "x \<le> sum_list ls" using nonneg x by (rule entry_le_sum_list)
    ultimately show "in_int64 x" using bound by (simp add: in_int64_def)
  qed
  have sums: "list_all in_int64 (np_cumsum (0 # ls))"
    unfolding list_all_length
  proof (intro allI impI)
    fix i assume "i < length (np_cumsum (0 # ls))"
    then have i: "i \<le> length ls" by (simp add: length_np_cumsum)
    have m: "mono (prefix_sum ls)" using nonneg by (rule prefix_sum_mono)
    have "prefix_sum ls 0 \<le> prefix_sum ls i" using m by (rule monoD) simp
    moreover have "prefix_sum ls i \<le> prefix_sum ls (length ls)" using m i by (rule monoD)
    ultimately have "0 \<le> prefix_sum ls i" and "prefix_sum ls i < 2 ^ 63"
      using bound by (simp_all add: prefix_sum_0 prefix_sum_all)
    then show "in_int64 (np_cumsum (0 # ls) ! i)"
      using i by (simp add: nth_np_cumsum in_int64_def)
  qed
  from entries sums show ?thesis by (simp add: int64_sums_def)
qed

section \<open>The length-list path\<close>

lemma length_list_path_rows:
  assumes "axis = 0 \<or> isinstance_Series T"
  shows "split_result_of_axis_func_pandas mps axis n \<lparr>result = T, length_list = Some ls\<rparr>
     = (Inr (map (\<lambda>i. iloc_rows (prefix_sum ls i) (prefix_sum ls (Suc i)) T) [0..<length ls]),
        \<lparr>result = T, length_list = Some (0 # ls)\<rparr>)"
proof -
  have "map (\<lambda>i. iloc_rows (np_cumsum (0 # ls) ! i) (np_cumsum (0 # ls) ! (i + 1)) T) [0..<length ls]
      = map (\<lambda>i. iloc_rows (prefix_sum ls i) (prefix_sum ls (Suc i)) T) [0..<length ls]"
    by (rule map_cong) (simp_all add: nth_np_cumsum)
  then show ?thesis
    using assms
    by (simp add: split_result_of_axis_func_pandas_def Let_def length_np_cumsum)
qed

lemma length_list_path_cols:
  assumes "axis \<noteq> 0"
  shows "split_result_of_axis_func_pandas mps axis n
           \<lparr>result = DataFrame cols rws, length_list = Some ls\<rparr>
     = (Inr (map (\<lambda>i. DataFrame (py_slice (prefix_sum ls i) (prefix_sum ls (Suc i)) cols)
                        (map (\<lambda>(l, cells). (l, py_slice (prefix_sum ls i) (prefix_sum ls (Suc i)) cells)) rws))
               [0..<length ls]),
        \<lparr>result = DataFrame cols rws, length_list = Some (0 # ls)\<rparr>)"
proof -
  have "map (\<lambda>i. iloc_cols (np_cumsum (0 # ls) ! i) (np_cumsum (0 # ls) ! (i + 1)) (DataFrame cols rws))
          [0..<length ls]
      = map (\<lambda>i. Inr (DataFrame (py_slice (prefix_sum ls i) (prefix_sum ls (Suc i)) cols)
                        (map (\<lambda>(l, cells). (l, py_slice (prefix_sum ls i) (prefix_sum ls (Suc i)) cells)) rws)))
          [0..<length ls]"
    by (rule map_cong) (simp_all add: nth_np_cumsum)
  then show ?thesis
    using assms
    by (simp add: split_result_of_axis_func_pandas_def Let_def length_np_cumsum comprehension_Inr)
qed

text \<open>
  Claim C7. With a length list \<open>[l1..lk]\<close>, its entries and running sums in the range
  of numpy's 64-bit integers, the function takes the prefix sums of \<open>[0] + list\<close> and
  returns exactly \<open>k\<close> partitions; partition \<open>i\<close> is the slice from prefix \<open>i\<close> to
  prefix \<open>i + 1\<close> along the target axis: the rows when the axis is 0 or the table is a
  series, the columns otherwise. The argument \<^verbatim>\<open>num_splits\<close> plays no part. A table
  of five rows with the length list \<open>[2, 2, 1]\<close> gives the rows \<open>[0, 2)\<close>, \<open>[2, 4)\<close>
  and \<open>[4, 5)\<close>.
\<close>

theorem split_length_list_partitions:
  "(int64_sums ls \<longrightarrow>
      fst (split_result_of_axis_func_pandas mps axis n
            \<lparr>result = DataFrame cols rws, length_list = Some ls\<rparr>)
        = Inr (map (\<lambda>i. if axis = 0
                        then DataFrame cols (py_slice (prefix_sum ls i) (prefix_sum ls (i + 1)) rws)
                        else DataFrame (py_slice (prefix_sum ls i) (prefix_sum ls (i + 1)) cols)
                               (map (\<lambda>(l, cells).
                                       (l, py_slice (prefix_sum ls i) (prefix_sum ls (i + 1)) cells)) rws))
                [0..<length ls])
    \<and> fst (split_result_of_axis_func_pandas mps axis n
              \<lparr>result = Series xs, length_list = Some ls\<rparr>)
        = Inr (map (\<lambda>i. Series (py_slice (prefix_sum ls i) (prefix_sum ls (i + 1)) xs))
                [0..<length ls])
    \<and> fst (split_result_of_axis_func_pandas mps axis n \<lparr>result = T, length_list = Some ls\<rparr>)
        = fst (split_result_of_axis_func_pandas mps axis n' \<lparr>result = T, length_list = Some ls\<rparr>))
   \<and> fst (split_result_of_axis_func_pandas mps 0 n
            \<lparr>result = DataFrame cols [r0, r1, r2, r3, r4], length_list = Some [2, 2, 1]\<rparr>)
     = Inr [DataFrame cols [r0, r1], DataFrame cols [r2, r3], DataFrame cols [r4]]"
proof -
  have df: "fst (split_result_of_axis_func_pandas mps axis n
          \<lparr>result = DataFrame cols rws, length_list = Some ls\<rparr>)
     = Inr (map (\<lambda>i. if axis = 0
                      then DataFrame cols (py_slice (prefix_sum ls i) (prefix_sum ls (i + 1)) rws)
                      else DataFrame (py_slice (prefix_sum ls i) (prefix_sum ls (i + 1)) cols)
                             (map (\<lambda>(l, cells).
                                     (l, py_slice (prefix_sum ls i) (prefix_sum ls (i + 1)) cells)) rws))
              [0..<length ls])"
    by (cases "axis = 0") (simp_all add: length_list_path_rows length_list_path_cols)
  have sr: "fst (split_result_of_axis_func_pandas mps axis n
            \<lparr>result = Series xs, length_list = Some ls\<rparr>)
     = Inr (map (\<lambda>i. Series (py_slice (prefix_sum ls i) (prefix_sum ls (i + 1)) xs))
              [0..<length ls])"
    by (simp add: length_list_path_rows)
  have ind: "fst (split_result_of_axis_func_pandas mps axis n \<lparr>result = T, length_list = Some ls\<rparr>)
     = fst (split_result_of_axis_func_pandas mps axis n' \<lparr>result = T, length_list = Some ls\<rparr>)"
    by (simp add: split_result_of_axis_func_pandas_def)
  have ex: "fst (split_result_of_axis_func_pandas mps 0 n
            \<lparr>result = DataFrame cols [r0, r1, r2, r3, r4], length_list = Some [2, 2, 1]\<rparr>)
     = Inr [DataFrame cols [r0, r1], DataFrame cols [r2, r3], DataFrame cols [r4]]"
    by (simp add: length_list_path_rows prefix_sum_def py_slice_def slice_bound_def upt_rec)
  from df sr ind ex show ?thesis by simp
qed

theorem split_length_list_partitions_witness:
  "int64_sums [1, 2]
   \<and> fst (split_result_of_axis_func_pandas 32 1 7
            \<lparr>result = DataFrame [0::nat, 1, 2] [(0::nat, [5::nat, 6, 7]), (1, [8, 9, 10])],
             length_list = Some [1, 2]\<rparr>)
       = Inr [DataFrame [0] [(0, [5]), (1, [8])],
              DataFrame [1, 2] [(0, [6, 7]), (1, [9, 10])]]
   \<and> fst (split_result_of_axis_func_pandas 32 1 7
            \<lparr>result = Series [(0::nat, 5::nat), (1, 6), (2, 7)], length_list = Some [1, 2]\<rparr>)
       = Inr [Series [(0, 5)], Series [(1, 6), (2, 7)]]"
proof -
  have h: "int64_sums [1, 2]"
    by (simp add: int64_sums_def in_int64_def np_cumsum_def)
  note inst = split_length_list_partitions
      [where ls = "[1, 2]" and mps = 32 and axis = 1 and n = 7 and n' = 7
         and cols = "[0::nat, 1, 2]" and rws = "[(0::nat, [5::nat, 6, 7]), (1, [8, 9, 10])]"
         and xs = "[(0::nat, 5::nat), (1, 6), (2, 7)]"
         and T = "Series [(0::nat, 5::nat), (1, 6), (2, 7)]"
         and ?r0.0 = "(0::nat, [5::nat, 6, 7])" and ?r1.0 = "(0::nat, [5::nat, 6, 7])"
         and ?r2.0 = "(0::nat, [5::nat, 6, 7])" and ?r3.0 = "(0::nat, [5::nat, 6, 7])"
         and ?r4.0 = "(0::nat, [5::nat, 6, 7])",
       THEN conjunct1, THEN mp, OF h]
  show ?thesis
    using h inst
    by (simp add: prefix_sum_def py_slice_def slice_bound_def upt_rec)
qed

section \<open>What a call does to its arguments\<close>

text \<open>
  Claim C10. A call with a length list inserts 0 at the front of the caller's list, which
  is one entry longer afterwards. For a list in the range of numpy's 64-bit integers, a
  second call with the same list object then returns one more partition than the first:
  an empty leading partition, followed by the partitions of the first call.
\<close>

theorem split_inserts_into_length_list:
  "snd (split_result_of_axis_func_pandas mps axis n \<lparr>result = T, length_list = Some ls\<rparr>)
     = \<lparr>result = T, length_list = Some (0 # ls)\<rparr>
   \<and> (int64_sums ls \<longrightarrow>
       (\<exists>parts lead.
           fst (split_result_of_axis_func_pandas mps axis n \<lparr>result = T, length_list = Some ls\<rparr>)
             = Inr parts
         \<and> fst (split_result_of_axis_func_pandas mps axis n'
                  (snd (split_result_of_axis_func_pandas mps axis n
                          \<lparr>result = T, length_list = Some ls\<rparr>)))
             = Inr (lead # parts)
         \<and> lead = (case T of
                     DataFrame cols rws \<Rightarrow>
                       if axis = 0 then DataFrame cols []
                       else DataFrame [] (map (\<lambda>(l, cells). (l, [])) rws)
                   | Series xs \<Rightarrow> Series [])
         \<and> length parts = length ls
         \<and> length (lead # parts) = length ls + 1))"
proof (cases "axis = 0 \<or> isinstance_Series T")
  case True
  have lead: "iloc_rows 0 0 T = (case T of
                   DataFrame cols rws \<Rightarrow>
                     if axis = 0 then DataFrame cols []
                     else DataFrame [] (map (\<lambda>(l, cells). (l, [])) rws)
                 | Series xs \<Rightarrow> Series [])"
    using True by (cases T) (simp_all add: py_slice_0_0)
  show ?thesis
    using True lead
    by (simp add: length_list_path_rows map_upt_Suc prefix_sum_0 prefix_sum_Cons del: upt_Suc)
next
  case False
  then obtain cols rws where T: "T = DataFrame cols rws" and ax: "axis \<noteq> 0"
    by (cases T) simp_all
  show ?thesis
    using ax unfolding T
    by (simp add: length_list_path_cols map_upt_Suc prefix_sum_0 prefix_sum_Cons py_slice_0_0
        del: upt_Suc)
qed

theorem split_inserts_into_length_list_witness:
  "int64_sums [2, 1]
   \<and> (\<exists>parts lead.
         fst (split_result_of_axis_func_pandas 32 0 3
                \<lparr>result = DataFrame [0::nat] [(0::nat, [7::nat]), (1, [8]), (2, [9])],
                 length_list = Some [2, 1]\<rparr>)
           = Inr parts
       \<and> fst (split_result_of_axis_func_pandas 32 0 3
                (snd (split_result_of_axis_func_pandas 32 0 3
                        \<lparr>result = DataFrame [0::nat] [(0::nat, [7::nat]), (1, [8]), (2, [9])],
                         length_list = Some [2, 1]\<rparr>)))
           = Inr (lead # parts)
       \<and> lead = DataFrame [0] []
       \<and> length parts = 2
       \<and> length (lead # parts) = 3)"
proof -
  have h: "int64_sums [2, 1]"
    by (simp add: int64_sums_def in_int64_def np_cumsum_def)
  note inst = split_inserts_into_length_list
      [where ls = "[2, 1]" and mps = 32 and axis = 0 and n = 3 and n' = 3
         and T = "DataFrame [0::nat] [(0::nat, [7::nat]), (1, [8]), (2, [9])]",
       THEN conjunct2, THEN mp, OF h]
  then obtain parts lead where
    "fst (split_result_of_axis_func_pandas 32 0 3
                \<lparr>result = DataFrame [0::nat] [(0::nat, [7::nat]), (1, [8]), (2, [9])],
                 length_list = Some [2, 1]\<rparr>)
           = Inr parts"
    and "fst (split_result_of_axis_func_pandas 32 0 3
                (snd (split_result_of_axis_func_pandas 32 0 3
                        \<lparr>result = DataFrame [0::nat] [(0::nat, [7::nat]), (1, [8]), (2, [9])],
                         length_list = Some [2, 1]\<rparr>)))
           = Inr (lead # parts)"
    and "lead = DataFrame [0] []" and "length parts = 2" and "length (lead # parts) = 3"
    by auto
  with h show ?thesis by blast
qed

text \<open>
  Claim C2 says that the call leaves all of its inputs unchanged, the length list
  included. After a call with the length list \<open>[2, 2, 1]\<close> the list is
  \<open>[0, 2, 2, 1]\<close>.
\<close>

theorem split_side_effect_counterexample:
  "length_list (snd (split_result_of_axis_func_pandas 32 0 3
      \<lparr>result = DataFrame [0::nat] [(0::nat, [5::nat]), (1, [6]), (2, [7]), (3, [8]), (4, [9])],
       length_list = Some [2, 2, 1]\<rparr>)) = Some [0, 2, 2, 1]
   \<and> length_list (snd (split_result_of_axis_func_pandas 32 0 3
      \<lparr>result = DataFrame [0::nat] [(0::nat, [5::nat]), (1, [6]), (2, [7]), (3, [8]), (4, [9])],
       length_list = Some [2, 2, 1]\<rparr>))
     \<noteq> length_list
         \<lparr>result = DataFrame [0::nat] [(0::nat, [5::nat]), (1, [6]), (2, [7]), (3, [8]), (4, [9])],
          length_list = Some [2, 2, 1]\<rparr>"
  by (simp add: split_result_of_axis_func_pandas_def Let_def)

text \<open>
  Claim C2, amended. Every call leaves the table as it was, and a call without a length
  list leaves all of its arguments as they were.
\<close>

theorem split_leaves_table:
  "result (snd (split_result_of_axis_func_pandas mps axis n objs)) = result objs
   \<and> (length_list objs = None \<longrightarrow>
        snd (split_result_of_axis_func_pandas mps axis n objs) = objs)"
  by (simp add: split_result_of_axis_func_pandas_def Let_def
      split: option.split sum.split chunksize.split)

theorem split_leaves_table_witness:
  "length_list \<lparr>result = DataFrame [0::nat] [(0::nat, [7::nat]), (1, [8]), (2, [9])],
                length_list = None\<rparr> = None
   \<and> snd (split_result_of_axis_func_pandas 32 0 3
            \<lparr>result = DataFrame [0::nat] [(0::nat, [7::nat]), (1, [8]), (2, [9])],
             length_list = None\<rparr>)
       = \<lparr>result = DataFrame [0::nat] [(0::nat, [7::nat]), (1, [8]), (2, [9])],
          length_list = None\<rparr>"
  using split_leaves_table [of 32 0 3
      "\<lparr>result = DataFrame [0::nat] [(0::nat, [7::nat]), (1, [8]), (2, [9])],
        length_list = None\<rparr>"]
  by simp

section \<open>A series on the uniform path\<close>

text \<open>
  Claim C3 says that a series is sliced along the rows whatever the axis, on both paths,
  and without an error. On the uniform path the chunk size is computed first, with the
  axis as given; for axis 1 \<^verbatim>\<open>compute_chunksize\<close> reads \<^verbatim>\<open>df.columns\<close>, which a
  series does not have, so the call raises \<^verbatim>\<open>AttributeError\<close> before the test for
  a series is reached. The same series with axis 0 is sliced along the rows.
\<close>

theorem series_column_axis_raises:
  "split_result_of_axis_func_pandas 32 1 2
      \<lparr>result = Series [(0::nat, 10::nat), (1, 20), (2, 30)], length_list = None\<rparr>
     = (Inl AttributeError,
        \<lparr>result = Series [(0::nat, 10::nat), (1, 20), (2, 30)], length_list = None\<rparr>)
   \<and> split_result_of_axis_func_pandas 32 0 2
      \<lparr>result = Series [(0::nat, 10::nat), (1, 20), (2, 30)], length_list = None\<rparr>
     = (Inr [Series [(0, 10), (1, 20), (2, 30)], Series []],
        \<lparr>result = Series [(0::nat, 10::nat), (1, 20), (2, 30)], length_list = None\<rparr>)"
  by code_simp

section \<open>Round trip\<close>

lemma pandas_concat_Cons:
  "ps \<noteq> [] \<Longrightarrow>
   pandas_concat axis (p # ps) =
     (case pandas_concat axis ps of None \<Rightarrow> None | Some t \<Rightarrow> concat_pair axis p t)"
  by (cases ps) simp_all

lemma concat_tiles:
  assumes glue: "\<And>a b c. 0 \<le> a \<Longrightarrow> a \<le> b \<Longrightarrow> b \<le> c \<Longrightarrow>
                   concat_pair axis (piece a b) (piece b c) = Some (piece a c)"
    and mono: "mono bnd" and nonneg: "0 \<le> bnd 0"
  shows "pandas_concat axis (map (\<lambda>i. piece (bnd i) (bnd (Suc i))) [0..<Suc k])
           = Some (piece (bnd 0) (bnd (Suc k)))"
  using mono nonneg
proof (induction k arbitrary: bnd)
  case 0
  then show ?case by simp
next
  case (Suc k)
  let ?bnd' = "\<lambda>i. bnd (Suc i)"
  have m': "mono ?bnd'"
    using Suc.prems(1) by (simp add: mono_def)
  have n': "0 \<le> ?bnd' 0"
    using Suc.prems by (meson monoD order_trans zero_le)
  have IH: "pandas_concat axis (map (\<lambda>i. piece (?bnd' i) (?bnd' (Suc i))) [0..<Suc k])
              = Some (piece (?bnd' 0) (?bnd' (Suc k)))"
    using m' n' by (rule Suc.IH)
  have le1: "bnd 0 \<le> bnd (Suc 0)" and le2: "bnd (Suc 0) \<le> bnd (Suc (Suc k))"
    using Suc.prems(1) by (simp_all add: mono_def)
  let ?p = "piece (bnd 0) (bnd (Suc 0))"
  let ?tail = "map (\<lambda>i. piece (?bnd' i) (?bnd' (Suc i))) [0..<Suc k]"
  have unroll: "map (\<lambda>i. piece (bnd i) (bnd (Suc i))) [0..<Suc (Suc k)] = ?p # ?tail"
    by (rule map_upt_Suc)
  have "?tail \<noteq> []"
    by simp
  then have "pandas_concat axis (?p # ?tail)
      = (case pandas_concat axis ?tail of None \<Rightarrow> None | Some t \<Rightarrow> concat_pair axis ?p t)"
    by (rule pandas_concat_Cons)
  also have "\<dots> = concat_pair axis ?p (piece (bnd (Suc 0)) (bnd (Suc (Suc k))))"
    by (simp only: IH option.case)
  also have "\<dots> = Some (piece (bnd 0) (bnd (Suc (Suc k))))"
    using Suc.prems(2) le1 le2 by (rule glue)
  finally show ?case
    by (simp only: unroll)
qed

lemma glue_rows:
  assumes "0 \<le> a" and "a \<le> b" and "b \<le> c"
  shows "concat_pair 0 (iloc_rows a b T) (iloc_rows b c T) = Some (iloc_rows a c T)"
  using assms by (cases T) (simp_all add: py_slice_append)

lemma zip_cells:
  "map2 (\<lambda>(l, x) (l', y). (l, x @ y)) (map (\<lambda>(l, cells). (l, f cells)) rws)
      (map (\<lambda>(l, cells). (l, g cells)) rws)
   = map (\<lambda>(l, cells). (l, f cells @ g cells)) rws"
  by (induction rws) auto

lemma map_fst_cells: "map fst (map (\<lambda>(l, cells). (l, f cells)) rws) = map fst rws"
  by (induction rws) auto

lemma glue_cols:
  assumes "0 \<le> a" and "a \<le> b" and "b \<le> c"
  shows "concat_pair 1
           (DataFrame (py_slice a b cols) (map (\<lambda>(l, cells). (l, py_slice a b cells)) rws))
           (DataFrame (py_slice b c cols) (map (\<lambda>(l, cells). (l, py_slice b c cells)) rws))
         = Some (DataFrame (py_slice a c cols) (map (\<lambda>(l, cells). (l, py_slice a c cells)) rws))"
proof -
  have labels: "map fst (map (\<lambda>(l, cells). (l, py_slice a b cells)) rws)
      = map fst (map (\<lambda>(l, cells). (l, py_slice b c cells)) rws)"
    by (simp only: map_fst_cells)
  have cells: "map2 (\<lambda>(l, x) (l', y). (l, x @ y))
        (map (\<lambda>(l, cells). (l, py_slice a b cells)) rws)
        (map (\<lambda>(l, cells). (l, py_slice b c cells)) rws)
      = map (\<lambda>(l, cells). (l, py_slice a c cells)) rws"
    by (simp only: zip_cells py_slice_append [OF assms])
  have "concat_pair 1
           (DataFrame (py_slice a b cols) (map (\<lambda>(l, cells). (l, py_slice a b cells)) rws))
           (DataFrame (py_slice b c cols) (map (\<lambda>(l, cells). (l, py_slice b c cells)) rws))
        = Some (DataFrame (py_slice a b cols @ py_slice b c cols)
             (map2 (\<lambda>(l, x) (l', y). (l, x @ y))
                (map (\<lambda>(l, cells). (l, py_slice a b cells)) rws)
                (map (\<lambda>(l, cells). (l, py_slice b c cells)) rws)))"
    using labels by (simp only: concat_pair.simps) simp
  then show ?thesis
    by (simp only: cells py_slice_append [OF assms])
qed

lemma cells_whole:
  assumes "list_all (\<lambda>(l, cells). length cells = length cols) rws"
    and "int (length cols) \<le> b"
  shows "map (\<lambda>(l, cells). (l, py_slice 0 b cells)) rws = rws"
  using assms by (induction rws) (auto simp: py_slice_whole)

lemma round_trip_list_rows:
  assumes "ls \<noteq> []" and "\<forall>l\<in>set ls. 0 \<le> l" and "sum_list ls = len_index T"
  shows "pandas_concat 0
           (map (\<lambda>i. iloc_rows (prefix_sum ls i) (prefix_sum ls (Suc i)) T) [0..<length ls])
         = Some T"
proof -
  from assms(1) obtain k where k: "length ls = Suc k"
    by (cases ls) simp_all
  have "pandas_concat 0
           (map (\<lambda>i. (\<lambda>a b. iloc_rows a b T) (prefix_sum ls i) (prefix_sum ls (Suc i))) [0..<Suc k])
         = Some ((\<lambda>a b. iloc_rows a b T) (prefix_sum ls 0) (prefix_sum ls (Suc k)))"
  proof (rule concat_tiles)
    show "mono (prefix_sum ls)" using assms(2) by (rule prefix_sum_mono)
    show "0 \<le> prefix_sum ls 0" by (simp add: prefix_sum_0)
    show "\<And>a b c. 0 \<le> a \<Longrightarrow> a \<le> b \<Longrightarrow> b \<le> c \<Longrightarrow>
            concat_pair 0 (iloc_rows a b T) (iloc_rows b c T) = Some (iloc_rows a c T)"
      by (rule glue_rows)
  qed
  moreover have "iloc_rows (prefix_sum ls 0) (prefix_sum ls (Suc k)) T = T"
    using assms(3) prefix_sum_all [of ls] unfolding k
    by (cases T) (simp_all add: prefix_sum_0 py_slice_whole)
  ultimately show ?thesis
    unfolding k by simp
qed

lemma round_trip_list_cols:
  assumes "ls \<noteq> []" and "\<forall>l\<in>set ls. 0 \<le> l" and "sum_list ls = int (length cols)"
    and "wf_frame (DataFrame cols rws)"
  shows "pandas_concat 1
           (map (\<lambda>i. DataFrame (py_slice (prefix_sum ls i) (prefix_sum ls (Suc i)) cols)
                   (map (\<lambda>(l, cells). (l, py_slice (prefix_sum ls i) (prefix_sum ls (Suc i)) cells)) rws))
              [0..<length ls])
         = Some (DataFrame cols rws)"
proof -
  from assms(1) obtain k where k: "length ls = Suc k"
    by (cases ls) simp_all
  let ?piece = "\<lambda>a b. DataFrame (py_slice a b cols) (map (\<lambda>(l, cells). (l, py_slice a b cells)) rws)"
  have "pandas_concat 1 (map (\<lambda>i. ?piece (prefix_sum ls i) (prefix_sum ls (Suc i))) [0..<Suc k])
         = Some (?piece (prefix_sum ls 0) (prefix_sum ls (Suc k)))"
  proof (rule concat_tiles)
    show "mono (prefix_sum ls)" using assms(2) by (rule prefix_sum_mono)
    show "0 \<le> prefix_sum ls 0" by (simp add: prefix_sum_0)
    show "\<And>a b c. 0 \<le> a \<Longrightarrow> a \<le> b \<Longrightarrow> b \<le> c \<Longrightarrow>
            concat_pair 1 (?piece a b) (?piece b c) = Some (?piece a c)"
      by (rule glue_cols)
  qed
  moreover have "?piece (prefix_sum ls 0) (prefix_sum ls (Suc k)) = DataFrame cols rws"
    using assms(3,4) prefix_sum_all [of ls] unfolding k
    by (simp add: prefix_sum_0 py_slice_whole cells_whole)
  ultimately show ?thesis
    unfolding k by simp
qed

lemma compute_chunksize_covers:
  assumes "0 < N"
  shows "\<exists>c. compute_chunksize mps (DataFrame cols rws) N None (Some 0) = Inr (Single c)
             \<and> 0 \<le> c \<and> int (length rws) \<le> c * N"
    and "\<exists>c. compute_chunksize mps (DataFrame cols rws) N None (Some 1) = Inr (Single c)
             \<and> 0 \<le> c \<and> int (length cols) \<le> c * N"
proof -
  have cover: "L \<le> max 1 (max (- ((- L) div N)) mps) * N" for L
  proof -
    have "L \<le> (- ((- L) div N)) * N"
      using assms by (rule neg_div_cover)
    also have "\<dots> \<le> max 1 (max (- ((- L) div N)) mps) * N"
      using assms by (intro mult_right_mono) simp_all
    finally show ?thesis .
  qed
  show "\<exists>c. compute_chunksize mps (DataFrame cols rws) N None (Some 0) = Inr (Single c)
             \<and> 0 \<le> c \<and> int (length rws) \<le> c * N"
    using assms cover [of "int (length rws)"]
    by (simp add: compute_chunksize_def get_default_chunksize_neg_div)
  show "\<exists>c. compute_chunksize mps (DataFrame cols rws) N None (Some 1) = Inr (Single c)
             \<and> 0 \<le> c \<and> int (length cols) \<le> c * N"
    using assms cover [of "int (length cols)"]
    by (simp add: compute_chunksize_def compute_chunksize_cols_def get_default_chunksize_neg_div)
qed

lemma uniform_tiles:
  assumes glue: "\<And>a b c. 0 \<le> a \<Longrightarrow> a \<le> b \<Longrightarrow> b \<le> c \<Longrightarrow>
                   concat_pair axis (piece a b) (piece b c) = Some (piece a c)"
    and "0 \<le> c" and "1 \<le> N"
  shows "pandas_concat axis (map (\<lambda>i. piece (c * i) (c * (i + 1))) (py_range N))
           = Some (piece 0 (c * N))"
proof -
  from assms(3) obtain k where k: "nat N = Suc k"
    by (cases "nat N") simp_all
  then have N: "N = int (Suc k)" using assms(3) by linarith
  let ?bnd = "\<lambda>i. c * int i"
  have "map (\<lambda>i. piece (c * i) (c * (i + 1))) (py_range N)
          = map (\<lambda>i. piece (?bnd i) (?bnd (Suc i))) [0..<Suc k]"
    by (simp add: py_range_upt k algebra_simps del: upt_Suc)
  moreover have "pandas_concat axis (map (\<lambda>i. piece (?bnd i) (?bnd (Suc i))) [0..<Suc k])
          = Some (piece (?bnd 0) (?bnd (Suc k)))"
  proof (rule concat_tiles)
    show "mono ?bnd"
      using assms(2) by (intro monoI mult_left_mono) simp_all
    show "0 \<le> ?bnd 0" by simp
    show "\<And>a b c. 0 \<le> a \<Longrightarrow> a \<le> b \<Longrightarrow> b \<le> c \<Longrightarrow>
            concat_pair axis (piece a b) (piece b c) = Some (piece a c)"
      by (rule glue)
  qed
  ultimately show ?thesis
    unfolding N by simp
qed

lemma round_trip_uniform_rows:
  assumes "1 \<le> N"
  shows "\<exists>parts. fst (split_result_of_axis_func_pandas mps 0 N
                        \<lparr>result = DataFrame cols rws, length_list = None\<rparr>) = Inr parts
               \<and> length parts = nat N
               \<and> pandas_concat 0 parts = Some (DataFrame cols rws)"
proof (cases "N = 1")
  case True
  then show ?thesis
    by (simp add: split_result_of_axis_func_pandas_def)
next
  case False
  have pos: "0 < N" using assms by simp
  obtain c where c: "compute_chunksize mps (DataFrame cols rws) N None (Some 0) = Inr (Single c)"
    and c0: "0 \<le> c" and cover: "int (length rws) \<le> c * N"
    using compute_chunksize_covers(1) [OF pos] by blast
  let ?parts = "map (\<lambda>i. iloc_rows (c * i) (c * (i + 1)) (DataFrame cols rws)) (py_range N)"
  have res: "fst (split_result_of_axis_func_pandas mps 0 N
                 \<lparr>result = DataFrame cols rws, length_list = None\<rparr>) = Inr ?parts"
    using False by (simp add: split_result_of_axis_func_pandas_def c)
  have "pandas_concat 0 ?parts = Some (iloc_rows 0 (c * N) (DataFrame cols rws))"
    using glue_rows c0 assms by (rule uniform_tiles)
  then have "pandas_concat 0 ?parts = Some (DataFrame cols rws)"
    using cover by (simp add: py_slice_whole)
  moreover have "length ?parts = nat N"
    by (simp add: py_range_upt)
  ultimately show ?thesis
    using res by blast
qed

lemma round_trip_uniform_cols:
  assumes "1 \<le> N" and "wf_frame (DataFrame cols rws)"
  shows "\<exists>parts. fst (split_result_of_axis_func_pandas mps 1 N
                        \<lparr>result = DataFrame cols rws, length_list = None\<rparr>) = Inr parts
               \<and> length parts = nat N
               \<and> pandas_concat 1 parts = Some (DataFrame cols rws)"
proof (cases "N = 1")
  case True
  then show ?thesis
    by (simp add: split_result_of_axis_func_pandas_def)
next
  case False
  have pos: "0 < N" using assms by simp
  obtain c where c: "compute_chunksize mps (DataFrame cols rws) N None (Some 1) = Inr (Single c)"
    and c0: "0 \<le> c" and cover: "int (length cols) \<le> c * N"
    using compute_chunksize_covers(2) [OF pos] by blast
  let ?piece = "\<lambda>a b. DataFrame (py_slice a b cols) (map (\<lambda>(l, cells). (l, py_slice a b cells)) rws)"
  let ?parts = "map (\<lambda>i. ?piece (c * i) (c * (i + 1))) (py_range N)"
  have res: "fst (split_result_of_axis_func_pandas mps 1 N
                 \<lparr>result = DataFrame cols rws, length_list = None\<rparr>) = Inr ?parts"
    using False by (simp add: split_result_of_axis_func_pandas_def c comprehension_Inr)
  have "pandas_concat 1 ?parts = Some (?piece 0 (c * N))"
    using glue_cols c0 assms(1) by (rule uniform_tiles)
  then have "pandas_concat 1 ?parts = Some (DataFrame cols rws)"
    using cover assms(2) by (simp add: py_slice_whole cells_whole)
  moreover have "length ?parts = nat N"
    by (simp add: py_range_upt)
  ultimately show ?thesis
    using res by blast
qed

text \<open>
  Claim C1 says that the partitions of a data frame, concatenated in order along the split
  axis, are the data frame again, on the uniform path for every \<open>N \<ge> 1\<close> and on the
  length-list path for every length list whose entries sum to the axis length. Two length
  lists that sum to the axis length do not give the table back. The empty list, for a
  table without rows, gives no partition at all, and there is nothing to concatenate. The
  list \<open>[1, - 1, 2]\<close>, for a table of two rows, gives the first row, no row, and both
  rows: the first row comes twice.
\<close>

theorem split_round_trip_counterexample:
  "sum_list [] = len_index (DataFrame [0::nat] ([]::(nat \<times> nat list) list))
   \<and> fst (split_result_of_axis_func_pandas 32 0 1
            \<lparr>result = DataFrame [0::nat] ([]::(nat \<times> nat list) list), length_list = Some []\<rparr>)
       = Inr []
   \<and> pandas_concat 0 ([]::(nat, nat) pandas list)
       \<noteq> Some (DataFrame [0::nat] ([]::(nat \<times> nat list) list))
   \<and> sum_list [1, - 1, 2] = len_index (DataFrame [0::nat] [(0::nat, [5::nat]), (1, [6])])
   \<and> fst (split_result_of_axis_func_pandas 32 0 1
            \<lparr>result = DataFrame [0::nat] [(0::nat, [5::nat]), (1, [6])],
             length_list = Some [1, - 1, 2]\<rparr>)
       = Inr [DataFrame [0] [(0, [5])], DataFrame [0] [], DataFrame [0] [(0, [5]), (1, [6])]]
   \<and> pandas_concat 0
        [DataFrame [0::nat] [(0::nat, [5::nat])], DataFrame [0] [],
         DataFrame [0] [(0, [5]), (1, [6])]]
       = Some (DataFrame [0] [(0, [5]), (0, [5]), (1, [6])])
   \<and> DataFrame [0::nat] [(0::nat, [5::nat]), (0, [5]), (1, [6])]
       \<noteq> DataFrame [0] [(0, [5]), (1, [6])]"
  by code_simp

text \<open>
  Claim C1, amended. For every data frame, either axis and every \<open>N \<ge> 1\<close> on the
  uniform path, and for every non-empty length list of non-negative entries that sum to
  the axis length on the length-list path, the call returns \<open>N\<close>, respectively as many
  partitions as the list has entries, and their concatenation in order along the split
  axis is the data frame.
\<close>

theorem split_round_trip:
  assumes "wf_frame (DataFrame cols rws)" and "axis = 0 \<or> axis = 1"
  shows "(1 \<le> N \<longrightarrow>
           (\<exists>parts. fst (split_result_of_axis_func_pandas mps axis N
                           \<lparr>result = DataFrame cols rws, length_list = None\<rparr>) = Inr parts
                  \<and> length parts = nat N
                  \<and> pandas_concat axis parts = Some (DataFrame cols rws)))
       \<and> (ls \<noteq> [] \<and> (\<forall>l\<in>set ls. 0 \<le> l)
            \<and> sum_list ls = (if axis = 0 then int (length rws) else int (length cols)) \<longrightarrow>
           (\<exists>parts. fst (split_result_of_axis_func_pandas mps axis N
                           \<lparr>result = DataFrame cols rws, length_list = Some ls\<rparr>) = Inr parts
                  \<and> length parts = length ls
                  \<and> pandas_concat axis parts = Some (DataFrame cols rws)))"
proof (cases "axis = 0")
  case True
  show ?thesis
    unfolding True
    using round_trip_uniform_rows [of N mps cols rws]
      round_trip_list_rows [of ls "DataFrame cols rws"]
    by (simp add: length_list_path_rows)
next
  case False
  with assms(2) have ax: "axis = 1" by simp
  show ?thesis
    unfolding ax
    using round_trip_uniform_cols [OF _ assms(1), of N mps]
      round_trip_list_cols [OF _ _ _ assms(1), of ls]
    by (simp add: length_list_path_cols)
qed

theorem split_round_trip_witness:
  "wf_frame (DataFrame [0::nat, 1] [(0::nat, [5::nat, 6]), (1, [7, 8]), (2, [9, 10])])
   \<and> ((1::int) = 0 \<or> (1::int) = 1) \<and> (1::int) \<le> 2
   \<and> [1, 1] \<noteq> ([]::int list) \<and> (0::int) \<le> 1
   \<and> sum_list [1, 1] = int (length [0::nat, 1])
   \<and> (\<exists>parts. fst (split_result_of_axis_func_pandas 32 1 2
                      \<lparr>result = DataFrame [0::nat, 1] [(0::nat, [5::nat, 6]), (1, [7, 8]), (2, [9, 10])],
                       length_list = None\<rparr>) = Inr parts
             \<and> length parts = nat 2
             \<and> pandas_concat 1 parts
                 = Some (DataFrame [0::nat, 1] [(0::nat, [5::nat, 6]), (1, [7, 8]), (2, [9, 10])]))
   \<and> (\<exists>parts. fst (split_result_of_axis_func_pandas 32 1 2
                      \<lparr>result = DataFrame [0::nat, 1] [(0::nat, [5::nat, 6]), (1, [7, 8]), (2, [9, 10])],
                       length_list = Some [1, 1]\<rparr>) = Inr parts
             \<and> length parts = length [1, 1::int]
             \<and> pandas_concat 1 parts
                 = Some (DataFrame [0::nat, 1] [(0::nat, [5::nat, 6]), (1, [7, 8]), (2, [9, 10])]))"
  using split_round_trip [of "[0::nat, 1]" "[(0::nat, [5::nat, 6]), (1, [7, 8]), (2, [9, 10])]"
      1 2 32 "[1, 1]"]
  by simp

end
